theory Spec2Isabelle
  imports Main "HOL-Library.AList"
begin

section \<open>Values\<close>

text \<open>
  A Python \<open>str\<close> is a sequence of Unicode code points; it is modelled as the list of
  its code points, so that every string (empty, whitespace, beyond ASCII) is a value of
  the type. \<open>lit\<close> embeds the literals of the source.
\<close>

type_synonym pystr = "nat list"

definition lit :: "string \<Rightarrow> pystr" where
  "lit cs = map of_char cs"

text \<open>
  A decoded JSON document. An object is the association list of its members (a Python
  \<open>dict\<close> keeps insertion order and has no key twice); \<open>map_of\<close> is the lookup. The
  model never looks into a number, so integers stand for the numbers of JSON (\<open>NaN\<close>
  and \<open>Infinity\<close>, which JSON does not have, are left out).
\<close>

datatype json =
    JNull
  | JBool bool
  | JNumber int
  | JString pystr
  | JArray "json list"
  | JObject "(pystr \<times> json) list"

type_synonym dict = "(pystr \<times> json) list"

text \<open>
  A response body is the UTF-8 encoding of a JSON text in which no character is escaped.
  UTF-8 has no encoding for the surrogate code points (D800 to DFFF), which a Python
  \<open>str\<close> can hold (the JSON escape \<open>\ud800\<close> decodes to one), so the encoding of such a
  string raises. A number above 10FFFF is no code point at all and is treated alike.
\<close>

definition scalar_value :: "nat \<Rightarrow> bool" where
  "scalar_value c = (c < 55296 \<or> (57343 < c \<and> c \<le> 1114111))"

definition utf8_encodable :: "pystr \<Rightarrow> bool" where
  "utf8_encodable s = list_all scalar_value s"

fun encodable :: "json \<Rightarrow> bool" where
  "encodable (JString s) = utf8_encodable s"
| "encodable (JArray xs) = list_all encodable xs"
| "encodable (JObject members) =
     list_all (\<lambda>kv. utf8_encodable (fst kv) \<and> encodable (snd kv)) members"
| "encodable JNull = True"
| "encodable (JBool b) = True"
| "encodable (JNumber n) = True"

section \<open>Time\<close>

text \<open>
  A \<open>datetime\<close> in UTC, as \<open>datetime.now(tz=timezone.utc)\<close> returns it. Python keeps the
  fields of a \<open>datetime\<close> within their ranges; \<open>valid_datetime\<close> says so of the record.
\<close>

record datetime =
  year :: nat
  month :: nat
  day :: nat
  hour :: nat
  minute :: nat
  second :: nat
  microsecond :: nat

definition valid_datetime :: "datetime \<Rightarrow> bool" where
  "valid_datetime t =
     (1 \<le> year t \<and> year t \<le> 9999 \<and> 1 \<le> month t \<and> month t \<le> 12 \<and>
      1 \<le> day t \<and> day t \<le> 31 \<and> hour t < 24 \<and> minute t < 60 \<and> second t < 60 \<and>
      microsecond t < 1000000)"

text \<open>Decimal digits, and a number padded with zeros to a fixed width.\<close>

definition digit :: "nat \<Rightarrow> nat" where
  "digit n = 48 + n mod 10"

definition pad2 :: "nat \<Rightarrow> pystr" where
  "pad2 n = [digit (n div 10), digit n]"

definition pad4 :: "nat \<Rightarrow> pystr" where
  "pad4 n = [digit (n div 1000), digit (n div 100), digit (n div 10), digit n]"

definition pad6 :: "nat \<Rightarrow> pystr" where
  "pad6 n = [digit (n div 100000), digit (n div 10000), digit (n div 1000),
             digit (n div 100), digit (n div 10), digit n]"

text \<open>
  \<open>datetime.isoformat()\<close> without the offset: date, \<open>T\<close>, time, and the microseconds
  unless they are zero.
\<close>

definition isoformat :: "datetime \<Rightarrow> pystr" where
  "isoformat t =
     pad4 (year t) @ lit ''-'' @ pad2 (month t) @ lit ''-'' @ pad2 (day t) @ lit ''T'' @
     pad2 (hour t) @ lit '':'' @ pad2 (minute t) @ lit '':'' @ pad2 (second t) @
     (if microsecond t = 0 then [] else lit ''.'' @ pad6 (microsecond t))"

text \<open>
  What \<open>TimeStamper(fmt="iso", utc=True)\<close> renders of the time it reads: the ISO format
  with \<open>Z\<close> for the offset of UTC.
\<close>

definition stamper_iso_utc :: "datetime \<Rightarrow> pystr" where
  "stamper_iso_utc t = isoformat t @ lit ''Z''"

text \<open>
  An ISO 8601 date and time in UTC, extended format: \<open>YYYY-MM-DDTHH:MM:SSZ\<close> or
  \<open>YYYY-MM-DDTHH:MM:SS.ffffffZ\<close>, with the month, day, hour, minute and second in range.
\<close>

definition is_digit :: "nat \<Rightarrow> bool" where
  "is_digit c = (48 \<le> c \<and> c \<le> 57)"

definition two_digits :: "pystr \<Rightarrow> nat \<Rightarrow> nat" where
  "two_digits s i = 10 * (s ! i - 48) + (s ! (i + 1) - 48)"

definition is_iso8601_utc :: "pystr \<Rightarrow> bool" where
  "is_iso8601_utc s =
     ((length s = 20 \<or> length s = 27) \<and>
      list_all is_digit (take 4 s) \<and> s ! 4 = 45 \<and>
      list_all is_digit (take 2 (drop 5 s)) \<and> s ! 7 = 45 \<and>
      list_all is_digit (take 2 (drop 8 s)) \<and> s ! 10 = 84 \<and>
      list_all is_digit (take 2 (drop 11 s)) \<and> s ! 13 = 58 \<and>
      list_all is_digit (take 2 (drop 14 s)) \<and> s ! 16 = 58 \<and>
      list_all is_digit (take 2 (drop 17 s)) \<and>
      (if length s = 20 then s ! 19 = 90
       else s ! 19 = 46 \<and> list_all is_digit (take 6 (drop 20 s)) \<and> s ! 26 = 90) \<and>
      1 \<le> two_digits s 5 \<and> two_digits s 5 \<le> 12 \<and>
      1 \<le> two_digits s 8 \<and> two_digits s 8 \<le> 31 \<and>
      two_digits s 11 \<le> 23 \<and> two_digits s 14 \<le> 59 \<and> two_digits s 17 \<le> 59)"

section \<open>The process state\<close>

datatype stream = Stdout | Stderr

datatype error = SettingsError | ValidationError | ValueError | TypeError

datatype log_method = Debug | Info | Warning | Warn | Error | Critical

text \<open>One call on the structlog logger: the method, the event and the keyword fields.\<close>

type_synonym log_call = "log_method \<times> pystr \<times> dict"

datatype exporter = OTLPSpanExporter pystr

datatype span_processor = BatchSpanProcessor nat

record TracerProvider =
  resource :: dict
  span_processors :: "span_processor list"

text \<open>
  What the module \<open>main.py\<close> reads and writes beyond its return values:
  \<^item> \<open>root_level\<close>, \<open>root_handlers\<close>: the root logger of \<open>logging\<close> (its level, and the
    stream of each of its handlers);
  \<^item> \<open>stdout\<close>, \<open>stderr\<close>: the lines written to the two standard streams, each line the JSON
    document that \<open>JSONRenderer\<close> serialises (its text is not modelled);
  \<^item> \<open>log_calls\<close>: every call made on \<open>logger\<close>, in order, whether it is written or dropped;
  \<^item> \<open>clock\<close>: the UTC time that \<open>TimeStamper\<close> reads at the n-th call on \<open>logger\<close> (real
    time is an input of the model);
  \<^item> \<open>providers\<close>, \<open>exporters\<close>: the store of the \<open>TracerProvider\<close> and
    \<open>OTLPSpanExporter\<close> objects constructed so far, an object being its index;
  \<^item> \<open>tracer_provider\<close>: the global provider of \<open>opentelemetry.trace\<close>;
  \<^item> \<open>instrumented\<close>: whether \<open>FastAPIInstrumentor.instrument_app\<close> has wrapped the app;
  \<^item> \<open>metrics_exposed\<close>: whether the Prometheus instrumentator is attached and exposed.
\<close>

record proc =
  root_level :: nat
  root_handlers :: "stream list"
  stdout :: "json list"
  stderr :: "json list"
  log_calls :: "log_call list"
  clock :: "nat \<Rightarrow> datetime"
  providers :: "TracerProvider list"
  exporters :: "exporter list"
  tracer_provider :: "nat option"
  instrumented :: bool
  metrics_exposed :: bool

section \<open>Structured logging (\<open>setup_logging\<close> and the calls on \<open>logger\<close>)\<close>

text \<open>The method name as \<open>structlog.stdlib.add_log_level\<close> records it.\<close>

fun method_name :: "log_method \<Rightarrow> pystr" where
  "method_name Debug = lit ''debug''"
| "method_name Info = lit ''info''"
| "method_name Warning = lit ''warning''"
| "method_name Warn = lit ''warning''"
| "method_name Error = lit ''error''"
| "method_name Critical = lit ''critical''"

text \<open>The numeric level of \<open>logging\<close> under which the method logs.\<close>

fun levelno :: "log_method \<Rightarrow> nat" where
  "levelno Debug = 10"
| "levelno Info = 20"
| "levelno Warning = 30"
| "levelno Warn = 30"
| "levelno Error = 40"
| "levelno Critical = 50"

definition add_log_level :: "log_method \<Rightarrow> dict \<Rightarrow> dict" where
  "add_log_level m event_dict = AList.update (lit ''level'') (JString (method_name m)) event_dict"

definition TimeStamper :: "datetime \<Rightarrow> dict \<Rightarrow> dict" where
  "TimeStamper t event_dict =
     AList.update (lit ''timestamp'') (JString (stamper_iso_utc t)) event_dict"

text \<open>
  \<open>StackInfoRenderer\<close> and \<open>format_exc_info\<close> pop their key. The text they add when the
  popped value is true is not modelled: no call of \<open>main.py\<close> passes either key.
\<close>

definition StackInfoRenderer :: "dict \<Rightarrow> dict" where
  "StackInfoRenderer event_dict = AList.delete (lit ''stack_info'') event_dict"

definition format_exc_info :: "dict \<Rightarrow> dict" where
  "format_exc_info event_dict = AList.delete (lit ''exc_info'') event_dict"

definition JSONRenderer :: "dict \<Rightarrow> json" where
  "JSONRenderer event_dict = JObject event_dict"

text \<open>
  The processor chain of \<open>structlog.configure\<close>, in its order, on the event dictionary
  that structlog builds from the keyword fields and the event.
\<close>

definition process_event :: "datetime \<Rightarrow> log_method \<Rightarrow> pystr \<Rightarrow> dict \<Rightarrow> json" where
  "process_event t m event kw =
     JSONRenderer (format_exc_info (StackInfoRenderer (TimeStamper t (add_log_level m
       (AList.update (lit ''event'') (JString event) kw)))))"

definition stream_write :: "stream \<Rightarrow> json \<Rightarrow> proc \<Rightarrow> proc" where
  "stream_write s line st =
     (case s of
        Stdout \<Rightarrow> st\<lparr>stdout := stdout st @ [line]\<rparr>
      | Stderr \<Rightarrow> st\<lparr>stderr := stderr st @ [line]\<rparr>)"

text \<open>
  \<open>logging\<close>: a record reaches every handler of the root logger; with no handler at all
  the handler of last resort writes warnings and above to standard error.
\<close>

definition callHandlers :: "nat \<Rightarrow> json \<Rightarrow> proc \<Rightarrow> proc" where
  "callHandlers lv line st =
     (if root_handlers st = [] then (if 30 \<le> lv then stream_write Stderr line st else st)
      else fold (\<lambda>s. stream_write s line) (root_handlers st) st)"

definition isEnabledFor :: "nat \<Rightarrow> proc \<Rightarrow> bool" where
  "isEnabledFor lv st = (root_level st \<le> lv)"

text \<open>
  What a call on the logger does once its arguments are bound: structlog runs the
  processors, then hands the rendered line to the \<open>logging\<close> logger, which drops it below
  the level of the root.
\<close>

definition proxy_to_logger :: "log_method \<Rightarrow> pystr \<Rightarrow> dict \<Rightarrow> proc \<Rightarrow> proc" where
  "proxy_to_logger m event kw st =
     (let line = process_event (clock st (length (log_calls st))) m event kw;
          st1 = st\<lparr>log_calls := log_calls st @ [(m, event, kw)]\<rparr>
      in if isEnabledFor (levelno m) st1 then callHandlers (levelno m) line st1 else st1)"

text \<open>
  A call \<open>logger.<method>(event, **kw)\<close> with any keyword fields. The first parameter of
  the method is named \<open>event\<close>, so a keyword field of that name is a \<open>TypeError\<close> of the
  call itself, before anything is done.
\<close>

definition logger_log :: "log_method \<Rightarrow> pystr \<Rightarrow> dict \<Rightarrow> proc \<Rightarrow> error + proc" where
  "logger_log m event kw st =
     (if map_of kw (lit ''event'') = None then Inr (proxy_to_logger m event kw st)
      else Inl TypeError)"

text \<open>
  The calls \<open>logger.info(...)\<close> of \<open>main.py\<close>. Their keyword fields are written in the
  source (none, \<open>input\<close> or \<open>output\<close>), so their arguments always bind.
\<close>

definition logger_info :: "pystr \<Rightarrow> dict \<Rightarrow> proc \<Rightarrow> proc" where
  "logger_info event kw st = proxy_to_logger Info event kw st"

section \<open>The request handlers\<close>

record ToolInput =
  input :: pystr

definition echo :: "ToolInput \<Rightarrow> proc \<Rightarrow> dict \<times> proc" where
  "echo payload st =
     (let st1 = logger_info (lit ''echo.request'') [(lit ''input'', JString (input payload))] st;
          result = lit ''Echo: '' @ input payload;
          st2 = logger_info (lit ''echo.response'') [(lit ''output'', JString result)] st1
      in ([(lit ''output'', JString result)], st2))"

definition health_check :: "proc \<Rightarrow> dict \<times> proc" where
  "health_check st =
     (let st1 = logger_info (lit ''health.check'') [] st
      in ([(lit ''status'', JString (lit ''ok''))], st1))"

definition ready_check :: "proc \<Rightarrow> dict \<times> proc" where
  "ready_check st =
     (let st1 = logger_info (lit ''ready.check'') [] st
      in ([(lit ''status'', JString (lit ''ok''))], st1))"


section \<open>Configuration (\<open>config.py\<close>)\<close>

record Settings =
  APP_NAME :: pystr
  LOG_LEVEL :: pystr
  APP_VERSION :: pystr
  CONTACT_NAME :: pystr
  CONTACT_URL :: pystr
  CONTACT_EMAIL :: pystr
  SERVERS :: "(pystr \<times> pystr) list list"
  OTEL_EXPORTER_OTLP_ENDPOINT :: pystr

text \<open>
  \<open>BaseSettings\<close> fills each field from its sources in the order of their priority: the
  process environment, then the file named by \<open>env_file\<close>, then the default of the class.
  Both sources are maps from the name of a setting to the text given for it, as the
  library matches names (\<open>dotenv\<close> is empty when there is no \<open>.env\<close> file).
\<close>

type_synonym environ = "pystr \<rightharpoonup> pystr"

definition source_value :: "environ \<Rightarrow> environ \<Rightarrow> pystr \<Rightarrow> pystr option" where
  "source_value env dotenv name =
     (case env name of Some v \<Rightarrow> Some v | None \<Rightarrow> dotenv name)"

definition str_field :: "environ \<Rightarrow> environ \<Rightarrow> pystr \<Rightarrow> pystr \<Rightarrow> pystr" where
  "str_field env dotenv name dflt =
     (case source_value env dotenv name of Some v \<Rightarrow> v | None \<Rightarrow> dflt)"

text \<open>
  \<open>SERVERS\<close> has a structured type. Each source that gives a text for it parses the text
  as JSON, and a text that does not parse is a \<open>SettingsError\<close> of that source, whether
  or not another source overrides it. \<open>decode\<close> is the JSON parser (\<open>json.loads\<close>), \<open>None\<close>
  when it refuses the text.
\<close>

definition source_servers :: "(pystr \<Rightarrow> json option) \<Rightarrow> environ \<Rightarrow> error + json option" where
  "source_servers decode src =
     (case src (lit ''SERVERS'') of
        None \<Rightarrow> Inr None
      | Some v \<Rightarrow> (case decode v of None \<Rightarrow> Inl SettingsError | Some j \<Rightarrow> Inr (Some j)))"

text \<open>
  The type \<open>list[dict[str, str]]\<close> of the value that wins: a list of objects whose
  members are all strings.
\<close>

definition validate_dict_str_str :: "json \<Rightarrow> (pystr \<times> pystr) list option" where
  "validate_dict_str_str j =
     (case j of
        JObject members \<Rightarrow>
          those (map (\<lambda>kv. case snd kv of JString s \<Rightarrow> Some (fst kv, s) | _ \<Rightarrow> None) members)
      | _ \<Rightarrow> None)"

definition validate_servers :: "json \<Rightarrow> (pystr \<times> pystr) list list option" where
  "validate_servers j =
     (case j of JArray xs \<Rightarrow> those (map validate_dict_str_str xs) | _ \<Rightarrow> None)"

definition servers_field ::
  "(pystr \<Rightarrow> json option) \<Rightarrow> environ \<Rightarrow> environ \<Rightarrow> error + (pystr \<times> pystr) list list" where
  "servers_field decode env dotenv =
     (case source_servers decode env of
        Inl e \<Rightarrow> Inl e
      | Inr from_env \<Rightarrow>
          (case source_servers decode dotenv of
             Inl e \<Rightarrow> Inl e
           | Inr from_dotenv \<Rightarrow>
               (case (case from_env of Some j \<Rightarrow> Some j | None \<Rightarrow> from_dotenv) of
                  None \<Rightarrow> Inr [[(lit ''url'', lit ''http://localhost:8000''),
                                (lit ''description'', lit ''Development Server'')]]
                | Some j \<Rightarrow>
                    (case validate_servers j of
                       None \<Rightarrow> Inl ValidationError
                     | Some xs \<Rightarrow> Inr xs))))"

definition Settings_init ::
  "(pystr \<Rightarrow> json option) \<Rightarrow> environ \<Rightarrow> environ \<Rightarrow> error + Settings" where
  "Settings_init decode env dotenv =
     (case servers_field decode env dotenv of
        Inl e \<Rightarrow> Inl e
      | Inr servers \<Rightarrow> Inr
          \<lparr>APP_NAME = str_field env dotenv (lit ''APP_NAME'') (lit ''Echo Tool Server''),
           LOG_LEVEL = str_field env dotenv (lit ''LOG_LEVEL'') (lit ''WARN''),
           APP_VERSION = str_field env dotenv (lit ''APP_VERSION'') (lit ''0.1.12''),
           CONTACT_NAME = str_field env dotenv (lit ''CONTACT_NAME'') (lit ''API Support''),
           CONTACT_URL = str_field env dotenv (lit ''CONTACT_URL'')
             (lit ''https://www.example.com/support''),
           CONTACT_EMAIL = str_field env dotenv (lit ''CONTACT_EMAIL'') (lit ''support@example.com''),
           SERVERS = servers,
           OTEL_EXPORTER_OTLP_ENDPOINT =
             str_field env dotenv (lit ''OTEL_EXPORTER_OTLP_ENDPOINT'') []\<rparr>)"


section \<open>\<open>setup_logging\<close>\<close>

text \<open>
  \<open>str.upper\<close>, as far as the lookup of a level name can tell. The small ASCII letters
  map to the capitals, and so do the only two other code points whose upper case is an
  ASCII letter, the dotless i (U+0131, to I) and the long s (U+017F, to S). Every other
  code point is kept: where Python maps it, the result holds a code point beyond ASCII,
  or one of the letter groups SS, FF, FI, FL, FFI, FFL and ST of a ligature, and no level
  name of \<open>logging\<close> holds either.
\<close>

definition upper :: "pystr \<Rightarrow> pystr" where
  "upper s =
     map (\<lambda>c. if 97 \<le> c \<and> c \<le> 122 then c - 32
              else if c = 305 then 73 else if c = 383 then 83 else c) s"

text \<open>The level names of \<open>logging\<close>; a name it does not know is a \<open>ValueError\<close>.\<close>

definition nameToLevel :: "(pystr \<times> nat) list" where
  "nameToLevel =
     [(lit ''CRITICAL'', 50), (lit ''FATAL'', 50), (lit ''ERROR'', 40), (lit ''WARN'', 30),
      (lit ''WARNING'', 30), (lit ''INFO'', 20), (lit ''DEBUG'', 10), (lit ''NOTSET'', 0)]"

definition checkLevel :: "pystr \<Rightarrow> error + nat" where
  "checkLevel level =
     (case map_of nameToLevel level of None \<Rightarrow> Inl ValueError | Some lv \<Rightarrow> Inr lv)"

text \<open>
  \<open>logging.basicConfig(stream, level)\<close>: when the root logger has no handler yet, it gets a
  \<open>StreamHandler\<close> on the given stream, standard error when none is given, and the level.
  With a handler already there the call changes nothing.
\<close>

definition basicConfig :: "stream option \<Rightarrow> pystr \<Rightarrow> proc \<Rightarrow> error + proc" where
  "basicConfig strm level st =
     (if root_handlers st = [] then
        (let st1 = st\<lparr>root_handlers := [case strm of None \<Rightarrow> Stderr | Some s \<Rightarrow> s]\<rparr>
         in case checkLevel level of
              Inl e \<Rightarrow> Inl e
            | Inr lv \<Rightarrow> Inr (st1\<lparr>root_level := lv\<rparr>))
      else Inr st)"

text \<open>
  The call of \<open>structlog.configure\<close> fixes the processor chain, which is \<open>process_event\<close>;
  \<open>basicConfig\<close> is called with a format and a level, and no stream.
\<close>

definition setup_logging :: "Settings \<Rightarrow> proc \<Rightarrow> error + proc" where
  "setup_logging settings st = basicConfig None (upper (LOG_LEVEL settings)) st"

section \<open>\<open>setup_tracing\<close> and \<open>setup_metrics\<close>\<close>

definition TracerProvider_new :: "dict \<Rightarrow> proc \<Rightarrow> nat \<times> proc" where
  "TracerProvider_new res st =
     (length (providers st),
      st\<lparr>providers := providers st @ [\<lparr>resource = res, span_processors = []\<rparr>]\<rparr>)"

text \<open>
  \<open>trace.set_tracer_provider\<close> installs the global provider once; a later call is refused
  (the warning the library logs then is not modelled: \<open>main.py\<close> calls it once).
\<close>

definition set_tracer_provider :: "nat \<Rightarrow> proc \<Rightarrow> proc" where
  "set_tracer_provider p st =
     (if tracer_provider st = None then st\<lparr>tracer_provider := Some p\<rparr> else st)"

definition OTLPSpanExporter_new :: "pystr \<Rightarrow> proc \<Rightarrow> nat \<times> proc" where
  "OTLPSpanExporter_new endpoint st =
     (length (exporters st), st\<lparr>exporters := exporters st @ [OTLPSpanExporter endpoint]\<rparr>)"

definition add_span_processor :: "nat \<Rightarrow> span_processor \<Rightarrow> proc \<Rightarrow> proc" where
  "add_span_processor p processor st =
     (if p < length (providers st) then
        st\<lparr>providers := (providers st)
          [p := (providers st ! p)\<lparr>span_processors := span_processors (providers st ! p) @ [processor]\<rparr>]\<rparr>
      else st)"

definition instrument_app :: "proc \<Rightarrow> proc" where
  "instrument_app st = st\<lparr>instrumented := True\<rparr>"

definition setup_tracing :: "Settings \<Rightarrow> proc \<Rightarrow> proc" where
  "setup_tracing settings st =
     (if OTEL_EXPORTER_OTLP_ENDPOINT settings = [] then
        logger_info (lit ''Tracing disabled because OTEL_EXPORTER_OTLP_ENDPOINT is empty'') [] st
      else
        (let res = [(lit ''service.name'', JString (APP_NAME settings)),
                    (lit ''service.version'', JString (APP_VERSION settings))];
             (provider, st1) = TracerProvider_new res st;
             st2 = set_tracer_provider provider st1;
             (exporter, st3) = OTLPSpanExporter_new (OTEL_EXPORTER_OTLP_ENDPOINT settings) st2;
             processor = BatchSpanProcessor exporter;
             st4 = add_span_processor provider processor st3;
             st5 = instrument_app st4
         in logger_info
              (lit ''Tracing enabled, exporting to '' @ OTEL_EXPORTER_OTLP_ENDPOINT settings) [] st5))"

definition setup_metrics :: "proc \<Rightarrow> proc" where
  "setup_metrics st = st\<lparr>metrics_exposed := True\<rparr>"

section \<open>The module body: start of the process\<close>

text \<open>
  A process that has not run any of \<open>main.py\<close>: the root logger of \<open>logging\<close> starts at
  WARNING with no handler, nothing is written, no provider is installed.
\<close>

definition fresh :: "(nat \<Rightarrow> datetime) \<Rightarrow> proc" where
  "fresh ck =
     \<lparr>root_level = 30, root_handlers = [], stdout = [], stderr = [], log_calls = [],
      clock = ck, providers = [], exporters = [], tracer_provider = None,
      instrumented = False, metrics_exposed = False\<rparr>"

text \<open>
  The statements of the module in their order: \<open>settings = Settings()\<close> (imported from
  \<open>config\<close>), \<open>setup_logging()\<close>, \<open>setup_tracing(app)\<close>, \<open>setup_metrics(app)\<close>. An
  exception of any of them ends the process before it serves a request.
\<close>

definition startup ::
  "(pystr \<Rightarrow> json option) \<Rightarrow> environ \<Rightarrow> environ \<Rightarrow> proc
     \<Rightarrow> error + (Settings \<times> proc)" where
  "startup decode env dotenv st =
     (case Settings_init decode env dotenv of
        Inl e \<Rightarrow> Inl e
      | Inr settings \<Rightarrow>
          (case setup_logging settings st of
             Inl e \<Rightarrow> Inl e
           | Inr st1 \<Rightarrow> Inr (settings, setup_metrics (setup_tracing settings st1))))"

section \<open>Requests and the route table\<close>

datatype http_method = GET | POST | HEAD

record request =
  http_method :: http_method
  path :: pystr
  body :: "json option"

text \<open>
  The body of a response: the JSON document a handler returned; nothing; the report of
  the validation errors of a rejected request, which quotes the value that was rejected;
  the text of the server for an exception nobody handled; or the metrics exposition.
  The last three are written by the libraries, their wording is not modelled.
\<close>

datatype content =
    Json dict
  | Empty
  | ValidationErrors json
  | InternalServerError
  | Exposition

record response =
  status_code :: nat
  content :: content

datatype endpoint = Echo_route | Health_check_route | Ready_check_route | Metrics_route

text \<open>
  The routes as the decorators of \<open>main.py\<close> and \<open>expose\<close> of \<open>setup_metrics\<close> register
  them.
\<close>

definition routes :: "((http_method \<times> pystr) \<times> endpoint) list" where
  "routes =
     [((GET, lit ''/metrics''), Metrics_route),
      ((POST, lit ''/echo''), Echo_route),
      ((HEAD, lit ''/health''), Health_check_route),
      ((GET, lit ''/health''), Health_check_route),
      ((GET, lit ''/ready''), Ready_check_route)]"

text \<open>
  \<open>class ToolInput(BaseModel): input: str\<close>. The body must be a JSON object whose member
  \<open>input\<close> is a string; other members are ignored (the default of \<open>BaseModel\<close>). A body
  that is refused gives the value its error report quotes: the body itself when it is
  no object or has no member \<open>input\<close>, the member when it is no string. \<open>None\<close> is a
  request without a body, and \<open>null\<close> counts as none.
\<close>

definition ToolInput_validate :: "json option \<Rightarrow> json + ToolInput" where
  "ToolInput_validate b =
     (case b of
        None \<Rightarrow> Inl JNull
      | Some (JObject members) \<Rightarrow>
          (case map_of members (lit ''input'') of
             None \<Rightarrow> Inl (JObject members)
           | Some (JString s) \<Rightarrow> Inr \<lparr>input = s\<rparr>
           | Some v \<Rightarrow> Inl v)
      | Some j \<Rightarrow> Inl j)"

text \<open>
  A response is made by encoding its content. A content that cannot be encoded raises,
  in the handler's response as in the report of a rejected request, and the server
  turns an exception that nobody handles into status 500.
\<close>

definition JSONResponse :: "nat \<Rightarrow> dict \<Rightarrow> response" where
  "JSONResponse code d =
     (if encodable (JObject d) then \<lparr>status_code = code, content = Json d\<rparr>
      else \<lparr>status_code = 500, content = InternalServerError\<rparr>)"

definition request_validation_exception_handler :: "json \<Rightarrow> response" where
  "request_validation_exception_handler quoted =
     (if encodable quoted then \<lparr>status_code = 422, content = ValidationErrors quoted\<rparr>
      else \<lparr>status_code = 500, content = InternalServerError\<rparr>)"

text \<open>
  One request. No decorator of \<open>main.py\<close> names a status, so the dictionary a handler
  returns is sent with the framework's status 200, without its body for HEAD; a body
  that does not validate is answered by the framework's handler for validation errors
  (status 422) and the handler of the route is not called. \<open>None\<close> is a request that
  matches no route of the table (the answer is the framework's own).
\<close>

definition handle :: "request \<Rightarrow> proc \<Rightarrow> response option \<times> proc" where
  "handle req st =
     (case map_of routes (http_method req, path req) of
        None \<Rightarrow> (None, st)
      | Some Metrics_route \<Rightarrow> (Some \<lparr>status_code = 200, content = Exposition\<rparr>, st)
      | Some Echo_route \<Rightarrow>
          (case ToolInput_validate (body req) of
             Inl quoted \<Rightarrow> (Some (request_validation_exception_handler quoted), st)
           | Inr payload \<Rightarrow>
               (let (d, st1) = echo payload st
                in (Some (JSONResponse 200 d), st1)))
      | Some Health_check_route \<Rightarrow>
          (let (d, st1) = health_check st;
               r = JSONResponse 200 d
           in (Some (if http_method req = HEAD then r\<lparr>content := Empty\<rparr> else r), st1))
      | Some Ready_check_route \<Rightarrow>
          (let (d, st1) = ready_check st
           in (Some (JSONResponse 200 d), st1)))"

text \<open>The requests of a list served one after the other.\<close>

fun serve :: "request list \<Rightarrow> proc \<Rightarrow> proc" where
  "serve [] st = st"
| "serve (req # reqs) st = serve reqs (snd (handle req st))"

text \<open>A clock for the worked examples: every reading is the same instant.\<close>

definition example_clock :: "nat \<Rightarrow> datetime" where
  "example_clock n =
     \<lparr>year = 2024, month = 1, day = 1, hour = 0, minute = 0, second = 0, microsecond = 0\<rparr>"

section \<open>Routing and validation facts\<close>

lemma route_echo: "map_of routes (POST, lit ''/echo'') = Some Echo_route"
  by (simp add: routes_def lit_def)

lemma route_health_get: "map_of routes (GET, lit ''/health'') = Some Health_check_route"
  by (simp add: routes_def lit_def)

lemma route_health_head: "map_of routes (HEAD, lit ''/health'') = Some Health_check_route"
  by (simp add: routes_def lit_def)

lemma route_ready: "map_of routes (GET, lit ''/ready'') = Some Ready_check_route"
  by (simp add: routes_def lit_def)

lemma fst_echo:
  "fst (echo payload st) = [(lit ''output'', JString (lit ''Echo: '' @ input payload))]"
  by (simp add: echo_def Let_def)

lemma fst_health_check: "fst (health_check st) = [(lit ''status'', JString (lit ''ok''))]"
  by (simp add: health_check_def Let_def)

lemma fst_ready_check: "fst (ready_check st) = [(lit ''status'', JString (lit ''ok''))]"
  by (simp add: ready_check_def Let_def)

lemma validate_input_only:
  "ToolInput_validate (Some (JObject [(lit ''input'', JString s)])) = Inr \<lparr>input = s\<rparr>"
  by (simp add: ToolInput_validate_def)

lemma validate_object:
  "map_of members (lit ''input'') = Some (JString s) \<Longrightarrow>
     ToolInput_validate (Some (JObject members)) = Inr \<lparr>input = s\<rparr>"
  by (simp add: ToolInput_validate_def)




text \<open>The two dictionaries the handlers return, and when they can be encoded.\<close>

lemma utf8_encodable_lit_Echo: "utf8_encodable (lit ''Echo: '' @ s) = utf8_encodable s"
  by (simp add: utf8_encodable_def scalar_value_def lit_def)

lemma encodable_output:
  "encodable (JObject [(lit ''output'', JString (lit ''Echo: '' @ s))]) = utf8_encodable s"
proof -
  have "utf8_encodable (lit ''output'')"
    by (simp add: utf8_encodable_def scalar_value_def lit_def)
  then show ?thesis by (simp add: utf8_encodable_lit_Echo)
qed

lemma encodable_status_ok: "encodable (JObject [(lit ''status'', JString (lit ''ok''))])"
  by (simp add: utf8_encodable_def scalar_value_def lit_def)

lemma JSONResponse_output:
  "JSONResponse code [(lit ''output'', JString (lit ''Echo: '' @ s))] =
     (if utf8_encodable s
      then \<lparr>status_code = code,
            content = Json [(lit ''output'', JString (lit ''Echo: '' @ s))]\<rparr>
      else \<lparr>status_code = 500, content = InternalServerError\<rparr>)"
  by (simp only: JSONResponse_def encodable_output)

lemma JSONResponse_status_ok:
  "JSONResponse code [(lit ''status'', JString (lit ''ok''))] =
     \<lparr>status_code = code, content = Json [(lit ''status'', JString (lit ''ok''))]\<rparr>"
  by (simp only: JSONResponse_def encodable_status_ok if_True)

lemma handle_echo:
  "handle \<lparr>http_method = POST, path = lit ''/echo'', body = b\<rparr> st =
     (case ToolInput_validate b of
        Inl quoted \<Rightarrow> (Some (request_validation_exception_handler quoted), st)
      | Inr payload \<Rightarrow>
          (Some (JSONResponse 200 [(lit ''output'', JString (lit ''Echo: '' @ input payload))]),
           snd (echo payload st)))"
  by (simp add: handle_def route_echo split_beta fst_echo split: sum.splits)

section \<open>What a call on the logger changes\<close>

lemma fold_write_fields:
  "root_level (fold (\<lambda>s. stream_write s line) hs st) = root_level st"
  "root_handlers (fold (\<lambda>s. stream_write s line) hs st) = root_handlers st"
  "log_calls (fold (\<lambda>s. stream_write s line) hs st) = log_calls st"
  "clock (fold (\<lambda>s. stream_write s line) hs st) = clock st"
  "providers (fold (\<lambda>s. stream_write s line) hs st) = providers st"
  "exporters (fold (\<lambda>s. stream_write s line) hs st) = exporters st"
  "tracer_provider (fold (\<lambda>s. stream_write s line) hs st) = tracer_provider st"
  "instrumented (fold (\<lambda>s. stream_write s line) hs st) = instrumented st"
  "metrics_exposed (fold (\<lambda>s. stream_write s line) hs st) = metrics_exposed st"
  by (induction hs arbitrary: st; simp add: stream_write_def split: stream.splits)+

lemma callHandlers_fields:
  "root_level (callHandlers lv line st) = root_level st"
  "root_handlers (callHandlers lv line st) = root_handlers st"
  "log_calls (callHandlers lv line st) = log_calls st"
  "clock (callHandlers lv line st) = clock st"
  "providers (callHandlers lv line st) = providers st"
  "exporters (callHandlers lv line st) = exporters st"
  "tracer_provider (callHandlers lv line st) = tracer_provider st"
  "instrumented (callHandlers lv line st) = instrumented st"
  "metrics_exposed (callHandlers lv line st) = metrics_exposed st"
  by (simp_all add: callHandlers_def fold_write_fields stream_write_def)

lemma proxy_to_logger_fields:
  "root_level (proxy_to_logger m event kw st) = root_level st"
  "root_handlers (proxy_to_logger m event kw st) = root_handlers st"
  "clock (proxy_to_logger m event kw st) = clock st"
  "providers (proxy_to_logger m event kw st) = providers st"
  "exporters (proxy_to_logger m event kw st) = exporters st"
  "tracer_provider (proxy_to_logger m event kw st) = tracer_provider st"
  "instrumented (proxy_to_logger m event kw st) = instrumented st"
  "metrics_exposed (proxy_to_logger m event kw st) = metrics_exposed st"
  by (simp_all add: proxy_to_logger_def Let_def callHandlers_fields)

lemma proxy_to_logger_calls:
  "log_calls (proxy_to_logger m event kw st) = log_calls st @ [(m, event, kw)]"
  by (simp add: proxy_to_logger_def Let_def callHandlers_fields)

lemma proxy_to_logger_dropped:
  "\<not> root_level st \<le> levelno m \<Longrightarrow>
     proxy_to_logger m event kw st = st\<lparr>log_calls := log_calls st @ [(m, event, kw)]\<rparr>"
  by (simp add: proxy_to_logger_def Let_def isEnabledFor_def)

lemma proxy_to_logger_written:
  "root_level st \<le> levelno m \<Longrightarrow> root_handlers st = [Stderr] \<Longrightarrow>
     proxy_to_logger m event kw st =
       st\<lparr>log_calls := log_calls st @ [(m, event, kw)],
          stderr := stderr st @ [process_event (clock st (length (log_calls st))) m event kw]\<rparr>"
  by (simp add: proxy_to_logger_def Let_def isEnabledFor_def callHandlers_def stream_write_def)

lemma logger_info_fields:
  "root_level (logger_info event kw st) = root_level st"
  "root_handlers (logger_info event kw st) = root_handlers st"
  "clock (logger_info event kw st) = clock st"
  "providers (logger_info event kw st) = providers st"
  "exporters (logger_info event kw st) = exporters st"
  "tracer_provider (logger_info event kw st) = tracer_provider st"
  "instrumented (logger_info event kw st) = instrumented st"
  "metrics_exposed (logger_info event kw st) = metrics_exposed st"
  by (simp_all add: logger_info_def proxy_to_logger_fields)

lemma logger_info_calls:
  "log_calls (logger_info event kw st) = log_calls st @ [(Info, event, kw)]"
  by (simp add: logger_info_def proxy_to_logger_calls)

lemma logger_info_quiet:
  "20 < root_level st \<Longrightarrow>
     stdout (logger_info event kw st) = stdout st \<and> stderr (logger_info event kw st) = stderr st"
  by (simp add: logger_info_def proxy_to_logger_dropped)

lemma process_event_members:
  assumes "map_of kw (lit ''stack_info'') = None" and "map_of kw (lit ''exc_info'') = None"
  shows "\<exists>line. process_event t m event kw = JObject line \<and>
     map_of line (lit ''timestamp'') = Some (JString (stamper_iso_utc t)) \<and>
     map_of line (lit ''level'') = Some (JString (method_name m)) \<and>
     map_of line (lit ''event'') = Some (JString event) \<and>
     (\<forall>k. k \<notin> {lit ''event'', lit ''level'', lit ''timestamp''}
        \<longrightarrow> map_of line k = map_of kw k)"
  using assms
  by (simp add: process_event_def JSONRenderer_def format_exc_info_def StackInfoRenderer_def
        TimeStamper_def add_log_level_def delete_conv' update_conv' lit_def)

section \<open>What the handlers and a request change\<close>

lemma echo_calls:
  "log_calls (snd (echo payload st)) = log_calls st @
     [(Info, lit ''echo.request'', [(lit ''input'', JString (input payload))]),
      (Info, lit ''echo.response'', [(lit ''output'', JString (lit ''Echo: '' @ input payload))])]"
  by (simp add: echo_def Let_def logger_info_calls)

lemma health_check_calls:
  "log_calls (snd (health_check st)) = log_calls st @ [(Info, lit ''health.check'', [])]"
  by (simp add: health_check_def Let_def logger_info_calls)

lemma ready_check_calls:
  "log_calls (snd (ready_check st)) = log_calls st @ [(Info, lit ''ready.check'', [])]"
  by (simp add: ready_check_def Let_def logger_info_calls)

lemma handle_health_get_calls:
  "log_calls (snd (handle \<lparr>http_method = GET, path = lit ''/health'', body = b\<rparr> st))
     = log_calls st @ [(Info, lit ''health.check'', [])]"
  by (simp add: handle_def route_health_get split_beta Let_def health_check_calls)

lemma handle_ready_calls:
  "log_calls (snd (handle \<lparr>http_method = GET, path = lit ''/ready'', body = b\<rparr> st))
     = log_calls st @ [(Info, lit ''ready.check'', [])]"
  by (simp add: handle_def route_ready split_beta Let_def ready_check_calls)

lemma handle_fields:
  "root_level (snd (handle req st)) = root_level st"
  "root_handlers (snd (handle req st)) = root_handlers st"
  "clock (snd (handle req st)) = clock st"
  "providers (snd (handle req st)) = providers st"
  "exporters (snd (handle req st)) = exporters st"
  "tracer_provider (snd (handle req st)) = tracer_provider st"
  "instrumented (snd (handle req st)) = instrumented st"
  "metrics_exposed (snd (handle req st)) = metrics_exposed st"
  by (simp_all add: handle_def echo_def health_check_def ready_check_def Let_def
        logger_info_fields split: option.splits endpoint.splits sum.splits)

lemma serve_fields:
  "root_level (serve reqs st) = root_level st"
  "root_handlers (serve reqs st) = root_handlers st"
  "clock (serve reqs st) = clock st"
  "providers (serve reqs st) = providers st"
  "exporters (serve reqs st) = exporters st"
  "tracer_provider (serve reqs st) = tracer_provider st"
  "instrumented (serve reqs st) = instrumented st"
  "metrics_exposed (serve reqs st) = metrics_exposed st"
  by (induction reqs arbitrary: st; simp add: handle_fields)+

lemma handle_quiet:
  "20 < root_level st \<Longrightarrow>
     stdout (snd (handle req st)) = stdout st \<and> stderr (snd (handle req st)) = stderr st"
  by (simp add: handle_def echo_def health_check_def ready_check_def Let_def
        logger_info_fields logger_info_quiet split: option.splits endpoint.splits sum.splits)

lemma handle_calls_info:
  "\<forall>c \<in> set (log_calls st). fst c = Info \<Longrightarrow>
     \<forall>c \<in> set (log_calls (snd (handle req st))). fst c = Info"
  by (simp add: handle_def echo_def health_check_def ready_check_def Let_def
        logger_info_calls split: option.splits endpoint.splits sum.splits)

lemma serve_quiet:
  "20 < root_level st \<Longrightarrow>
     stdout (serve reqs st) = stdout st \<and> stderr (serve reqs st) = stderr st"
  by (induction reqs arbitrary: st) (simp_all add: handle_quiet handle_fields)

lemma serve_calls_info:
  "\<forall>c \<in> set (log_calls st). fst c = Info \<Longrightarrow>
     \<forall>c \<in> set (log_calls (serve reqs st)). fst c = Info"
proof (induction reqs arbitrary: st)
  case Nil
  then show ?case by simp
next
  case (Cons req reqs)
  from Cons.prems have "\<forall>c \<in> set (log_calls (snd (handle req st))). fst c = Info"
    by (rule handle_calls_info)
  then show ?case using Cons.IH by simp
qed

section \<open>What the start of the process establishes\<close>

lemma level_info: "checkLevel (upper (lit ''info'')) = Inr 20"
  by (simp add: checkLevel_def upper_def nameToLevel_def lit_def)

lemma level_WARN: "checkLevel (upper (lit ''WARN'')) = Inr 30"
  by (simp add: checkLevel_def upper_def nameToLevel_def lit_def)

lemma setup_tracing_fields:
  "root_level (setup_tracing settings st) = root_level st"
  "root_handlers (setup_tracing settings st) = root_handlers st"
  "clock (setup_tracing settings st) = clock st"
  by (simp_all add: setup_tracing_def Let_def split_beta logger_info_fields instrument_app_def
        add_span_processor_def OTLPSpanExporter_new_def set_tracer_provider_def
        TracerProvider_new_def)

lemma setup_tracing_calls:
  "\<exists>msg. log_calls (setup_tracing settings st) = log_calls st @ [(Info, msg, [])]"
  by (simp add: setup_tracing_def Let_def split_beta logger_info_calls instrument_app_def
        add_span_processor_def OTLPSpanExporter_new_def set_tracer_provider_def
        TracerProvider_new_def)

lemma setup_tracing_quiet:
  "20 < root_level st \<Longrightarrow>
     stdout (setup_tracing settings st) = stdout st \<and> stderr (setup_tracing settings st) = stderr st"
  by (simp add: setup_tracing_def Let_def split_beta logger_info_quiet instrument_app_def
        add_span_processor_def OTLPSpanExporter_new_def set_tracer_provider_def
        TracerProvider_new_def)

lemma setup_tracing_disabled:
  "OTEL_EXPORTER_OTLP_ENDPOINT settings = [] \<Longrightarrow>
     providers (setup_tracing settings st) = providers st \<and>
     exporters (setup_tracing settings st) = exporters st \<and>
     tracer_provider (setup_tracing settings st) = tracer_provider st \<and>
     instrumented (setup_tracing settings st) = instrumented st \<and>
     log_calls (setup_tracing settings st) = log_calls st @
       [(Info, lit ''Tracing disabled because OTEL_EXPORTER_OTLP_ENDPOINT is empty'', [])]"
  by (simp add: setup_tracing_def logger_info_fields logger_info_calls)

lemma setup_tracing_enabled:
  "OTEL_EXPORTER_OTLP_ENDPOINT settings \<noteq> [] \<Longrightarrow> tracer_provider st = None \<Longrightarrow>
     providers (setup_tracing settings st) = providers st @
       [\<lparr>resource = [(lit ''service.name'', JString (APP_NAME settings)),
                     (lit ''service.version'', JString (APP_VERSION settings))],
         span_processors = [BatchSpanProcessor (length (exporters st))]\<rparr>] \<and>
     exporters (setup_tracing settings st) = exporters st @
       [OTLPSpanExporter (OTEL_EXPORTER_OTLP_ENDPOINT settings)] \<and>
     tracer_provider (setup_tracing settings st) = Some (length (providers st)) \<and>
     instrumented (setup_tracing settings st) \<and>
     log_calls (setup_tracing settings st) = log_calls st @
       [(Info, lit ''Tracing enabled, exporting to '' @ OTEL_EXPORTER_OTLP_ENDPOINT settings, [])]"
  by (simp add: setup_tracing_def Let_def logger_info_fields logger_info_calls instrument_app_def
        add_span_processor_def OTLPSpanExporter_new_def set_tracer_provider_def
        TracerProvider_new_def)

lemma setup_logging_fresh:
  "setup_logging settings (fresh ck) = Inr st \<Longrightarrow>
     checkLevel (upper (LOG_LEVEL settings)) = Inr (root_level st) \<and>
     root_handlers st = [Stderr] \<and> stdout st = [] \<and> stderr st = [] \<and> log_calls st = [] \<and>
     providers st = [] \<and> exporters st = [] \<and> tracer_provider st = None \<and>
     \<not> instrumented st \<and> clock st = ck"
  by (auto simp add: setup_logging_def basicConfig_def fresh_def Let_def split: sum.splits)

lemma startup_fresh:
  assumes "startup decode env dotenv (fresh ck) = Inr (settings, st)"
  shows "Settings_init decode env dotenv = Inr settings"
    and "\<exists>st1. setup_logging settings (fresh ck) = Inr st1 \<and>
           st = setup_metrics (setup_tracing settings st1)"
  using assms by (auto simp add: startup_def split: sum.splits)

lemma startup_root:
  assumes "startup decode env dotenv (fresh ck) = Inr (settings, st)"
  shows "root_handlers st = [Stderr]"
    and "checkLevel (upper (LOG_LEVEL settings)) = Inr (root_level st)"
proof -
  from startup_fresh(2) [OF assms] obtain st1 where
    l: "setup_logging settings (fresh ck) = Inr st1" and
    s: "st = setup_metrics (setup_tracing settings st1)" by blast
  from setup_logging_fresh [OF l] have
    c: "checkLevel (upper (LOG_LEVEL settings)) = Inr (root_level st1)" and
    h: "root_handlers st1 = [Stderr]" by simp_all
  show "root_handlers st = [Stderr]"
    by (simp add: s setup_metrics_def setup_tracing_fields h)
  show "checkLevel (upper (LOG_LEVEL settings)) = Inr (root_level st)"
    by (simp add: s setup_metrics_def setup_tracing_fields c)
qed

text \<open>
  The start of the process returns: with no \<open>SERVERS\<close> text to decode and a level name that
  \<open>logging\<close> knows, no statement of the module raises.
\<close>

lemma servers_field_default:
  "env (lit ''SERVERS'') = None \<Longrightarrow> dotenv (lit ''SERVERS'') = None \<Longrightarrow>
     servers_field decode env dotenv =
       Inr [[(lit ''url'', lit ''http://localhost:8000''),
             (lit ''description'', lit ''Development Server'')]]"
  by (simp add: servers_field_def source_servers_def)

lemma startup_succeeds:
  assumes "env (lit ''SERVERS'') = None" and "dotenv (lit ''SERVERS'') = None"
    and "checkLevel (upper (str_field env dotenv (lit ''LOG_LEVEL'') (lit ''WARN''))) = Inr lv"
  shows "\<exists>settings st. startup decode env dotenv (fresh ck) = Inr (settings, st)"
  using assms(3)
  by (simp add: startup_def Settings_init_def servers_field_default [where env = env and dotenv = dotenv, OF assms(1,2)]
        setup_logging_def basicConfig_def fresh_def)

lemma startup_default_succeeds:
  assumes "env (lit ''LOG_LEVEL'') = None" and "dotenv (lit ''LOG_LEVEL'') = None"
    and "env (lit ''SERVERS'') = None" and "dotenv (lit ''SERVERS'') = None"
  shows "\<exists>settings st. startup decode env dotenv (fresh ck) = Inr (settings, st)"
proof -
  have l: "checkLevel (upper (str_field env dotenv (lit ''LOG_LEVEL'') (lit ''WARN''))) = Inr 30"
    by (simp add: str_field_def source_value_def assms level_WARN)
  from startup_succeeds [where env = env and dotenv = dotenv, OF assms(3,4) l] show ?thesis .
qed

lemma startup_info:
  "\<exists>settings st. startup (\<lambda>_. None) [lit ''LOG_LEVEL'' \<mapsto> lit ''info''] Map.empty (fresh example_clock)
      = Inr (settings, st) \<and> root_level st = 20 \<and> stdout st = [] \<and> clock st = example_clock
      \<and> length (log_calls st) = 1"
proof -
  have s: "[lit ''LOG_LEVEL'' \<mapsto> lit ''info''] (lit ''SERVERS'') = None"
          "Map.empty (lit ''SERVERS'') = (None :: pystr option)"
    by (simp_all add: lit_def)
  have f: "str_field [lit ''LOG_LEVEL'' \<mapsto> lit ''info''] Map.empty (lit ''LOG_LEVEL'') (lit ''WARN'')
             = lit ''info''"
    by (simp add: str_field_def source_value_def)
  have lv: "checkLevel (upper (str_field [lit ''LOG_LEVEL'' \<mapsto> lit ''info''] Map.empty
              (lit ''LOG_LEVEL'') (lit ''WARN''))) = Inr 20"
    by (simp add: f level_info)
  from startup_succeeds [where env = "[lit ''LOG_LEVEL'' \<mapsto> lit ''info'']" and dotenv = Map.empty,
      OF s lv] obtain settings st where
    st: "startup (\<lambda>_. None) [lit ''LOG_LEVEL'' \<mapsto> lit ''info''] Map.empty (fresh example_clock)
           = Inr (settings, st)"
    by blast
  from startup_fresh [OF st] obtain st1 where
    i: "Settings_init (\<lambda>_. None) [lit ''LOG_LEVEL'' \<mapsto> lit ''info''] Map.empty = Inr settings" and
    l: "setup_logging settings (fresh example_clock) = Inr st1" and
    e: "st = setup_metrics (setup_tracing settings st1)" by blast
  from i have ll: "LOG_LEVEL settings = lit ''info''" and ot: "OTEL_EXPORTER_OTLP_ENDPOINT settings = []"
    by (auto simp add: Settings_init_def f str_field_def source_value_def lit_def split: sum.splits)
  from startup_root(2) [OF st] have r: "root_level st = 20"
    by (simp add: ll level_info)
  from setup_logging_fresh [OF l] have q: "stdout st1 = []" "log_calls st1 = []" "clock st1 = example_clock"
    "root_handlers st1 = [Stderr]" "checkLevel (upper (LOG_LEVEL settings)) = Inr (root_level st1)"
    by simp_all
  have r1: "root_level st1 = 20" using q(5) by (simp add: ll level_info)
  have "stdout st = []"
    using q r1
    by (simp add: e setup_metrics_def setup_tracing_def ot logger_info_def proxy_to_logger_written)
  moreover have "clock st = example_clock"
    by (simp add: e setup_metrics_def setup_tracing_fields q)
  moreover have "length (log_calls st) = 1"
    by (simp add: e setup_metrics_def setup_tracing_def ot logger_info_calls q)
  ultimately show ?thesis using st r by blast
qed

section \<open>How a setting is resolved\<close>

lemma source_value_cong:
  "env n = env' n \<Longrightarrow> dotenv n = dotenv' n \<Longrightarrow>
     source_value env dotenv n = source_value env' dotenv' n"
  by (simp add: source_value_def split: option.splits)



section \<open>The timestamp of a line\<close>

lemma is_digit_digit: "is_digit (digit n)"
  by (simp add: is_digit_def digit_def)

lemma digit_val: "digit n - 48 = n mod 10"
  by (simp add: digit_def)

lemma two_digits_value: "n < 100 \<Longrightarrow> 10 * (digit (n div 10) - 48) + (digit n - 48) = n"
  by (simp add: digit_val)

lemma stamper_explicit:
  "stamper_iso_utc t =
     digit (year t div 1000) # digit (year t div 100) # digit (year t div 10) # digit (year t) # 45 #
     digit (month t div 10) # digit (month t) # 45 #
     digit (day t div 10) # digit (day t) # 84 #
     digit (hour t div 10) # digit (hour t) # 58 #
     digit (minute t div 10) # digit (minute t) # 58 #
     digit (second t div 10) # digit (second t) #
     (if microsecond t = 0 then [90]
      else [46, digit (microsecond t div 100000), digit (microsecond t div 10000),
            digit (microsecond t div 1000), digit (microsecond t div 100),
            digit (microsecond t div 10), digit (microsecond t), 90])"
  by (simp add: stamper_iso_utc_def isoformat_def pad2_def pad4_def pad6_def lit_def)

lemma stamper_is_iso8601_utc:
  assumes "valid_datetime t"
  shows "is_iso8601_utc (stamper_iso_utc t)"
proof -
  from assms have r: "month t < 100" "day t < 100" "hour t < 100" "minute t < 100" "second t < 100"
    and v: "1 \<le> month t" "month t \<le> 12" "1 \<le> day t" "day t \<le> 31" "hour t \<le> 23"
           "minute t \<le> 59" "second t \<le> 59"
    by (simp_all add: valid_datetime_def)
  show ?thesis
    using v
    by (simp add: is_iso8601_utc_def stamper_explicit two_digits_def is_digit_digit
          two_digits_value [OF r(1)] two_digits_value [OF r(2)] two_digits_value [OF r(3)]
          two_digits_value [OF r(4)] two_digits_value [OF r(5)])
qed

lemma valid_example_clock: "valid_datetime (example_clock n)"
  by (simp add: valid_datetime_def example_clock_def)

lemma stamper_example_clock: "stamper_iso_utc (example_clock n) = lit ''2024-01-01T00:00:00Z''"
  by (simp add: stamper_explicit example_clock_def digit_def lit_def)

section \<open>The echo operation\<close>



lemma accepted_handle:
  "ToolInput_validate b = Inr \<lparr>input = s\<rparr> \<Longrightarrow>
     handle \<lparr>http_method = POST, path = lit ''/echo'', body = b\<rparr> st =
       (Some (JSONResponse 200 [(lit ''output'', JString (lit ''Echo: '' @ s))]),
        snd (echo \<lparr>input = s\<rparr> st))"
  by (simp add: handle_echo)

lemma surrogate_not_encodable: "\<not> utf8_encodable [55296]"
  by (simp add: utf8_encodable_def scalar_value_def)

text \<open>
  C1, as the code has it. For every string \<open>s\<close> of Unicode scalar values (no surrogate
  code point; the empty string, whitespace and text beyond ASCII included), a POST /echo
  request whose body is \<open>{"input": s}\<close> is answered, in every state of the process, with
  status 200 and the body \<open>{"output": "Echo: " + s}\<close>: the fixed prefix followed by the
  input unchanged.
\<close>

theorem echo_returns_prefixed_input:
  "utf8_encodable s \<Longrightarrow>
     fst (handle \<lparr>http_method = POST, path = lit ''/echo'',
                   body = Some (JObject [(lit ''input'', JString s)])\<rparr> st)
       = Some \<lparr>status_code = 200,
               content = Json [(lit ''output'', JString (lit ''Echo: '' @ s))]\<rparr>"
  by (simp add: accepted_handle [OF validate_input_only] JSONResponse_output)

text \<open>The scenario of the test suite: \<open>{"input": "Hello FastAPI"}\<close>.\<close>

theorem echo_returns_prefixed_input_witness:
  "utf8_encodable (lit ''Hello FastAPI'')
   \<and> fst (handle \<lparr>http_method = POST, path = lit ''/echo'',
                   body = Some (JObject [(lit ''input'', JString (lit ''Hello FastAPI''))])\<rparr>
            (fresh example_clock))
       = Some \<lparr>status_code = 200,
               content = Json [(lit ''output'', JString (lit ''Echo: Hello FastAPI''))]\<rparr>"
proof -
  have e: "utf8_encodable (lit ''Hello FastAPI'')"
    by (simp add: utf8_encodable_def scalar_value_def lit_def)
  have c: "lit ''Echo: '' @ lit ''Hello FastAPI'' = lit ''Echo: Hello FastAPI''"
    by (simp add: lit_def)
  from echo_returns_prefixed_input [OF e, of "fresh example_clock"] e
  show ?thesis by (simp only: c simp_thms)
qed

text \<open>
  C1 as the specification states it (every string) fails: the body \<open>{"input": "\ud800"}\<close>
  validates, its input is the one surrogate code point D800, and the response
  \<open>{"output": "Echo: \ud800"}\<close> cannot be encoded, so the answer is status 500, not 200.
\<close>

theorem echo_lone_surrogate_counterexample:
  "fst (handle \<lparr>http_method = POST, path = lit ''/echo'',
                 body = Some (JObject [(lit ''input'', JString [55296])])\<rparr>
          (fresh example_clock))
     = Some \<lparr>status_code = 500, content = InternalServerError\<rparr>
   \<and> fst (handle \<lparr>http_method = POST, path = lit ''/echo'',
                 body = Some (JObject [(lit ''input'', JString [55296])])\<rparr>
          (fresh example_clock))
     \<noteq> Some \<lparr>status_code = 200,
              content = Json [(lit ''output'', JString (lit ''Echo: '' @ [55296]))]\<rparr>"
  by (simp add: accepted_handle [OF validate_input_only] JSONResponse_output
        surrogate_not_encodable)




text \<open>
  C10. Two POST /echo bodies whose member \<open>input\<close> has the same value get the same
  response, whatever their other members and whatever the states of the process, and on
  the same state the same result; the effect of a request on the state depends on the
  member \<open>input\<close> alone; and a body whose \<open>input\<close> is a string gets the response of the
  body that holds nothing but that \<open>input\<close>, which is not the 422 of a rejected request:
  unknown members are ignored, not rejected.
\<close>

theorem echo_depends_on_input_only:
  "(map_of members (lit ''input'') = Some v \<and> map_of members' (lit ''input'') = Some v \<longrightarrow>
      fst (handle \<lparr>http_method = POST, path = lit ''/echo'', body = Some (JObject members)\<rparr> st)
        = fst (handle \<lparr>http_method = POST, path = lit ''/echo'', body = Some (JObject members')\<rparr> st')
      \<and> handle \<lparr>http_method = POST, path = lit ''/echo'', body = Some (JObject members)\<rparr> st
        = handle \<lparr>http_method = POST, path = lit ''/echo'', body = Some (JObject members')\<rparr> st)
   \<and> (map_of members (lit ''input'') = map_of members' (lit ''input'') \<longrightarrow>
      snd (handle \<lparr>http_method = POST, path = lit ''/echo'', body = Some (JObject members)\<rparr> st)
        = snd (handle \<lparr>http_method = POST, path = lit ''/echo'', body = Some (JObject members')\<rparr> st))
   \<and> (map_of members (lit ''input'') = Some (JString s) \<longrightarrow>
      fst (handle \<lparr>http_method = POST, path = lit ''/echo'', body = Some (JObject members)\<rparr> st)
        = fst (handle \<lparr>http_method = POST, path = lit ''/echo'',
                      body = Some (JObject [(lit ''input'', JString s)])\<rparr> st')
      \<and> (\<exists>r. fst (handle \<lparr>http_method = POST, path = lit ''/echo'',
                           body = Some (JObject members)\<rparr> st) = Some r
             \<and> status_code r \<noteq> 422))"
proof (intro conjI impI)
  assume a: "map_of members (lit ''input'') = Some v \<and> map_of members' (lit ''input'') = Some v"
  then have e: "ToolInput_validate (Some (JObject members))
                  = ToolInput_validate (Some (JObject members'))"
    by (simp add: ToolInput_validate_def)
  show "fst (handle \<lparr>http_method = POST, path = lit ''/echo'', body = Some (JObject members)\<rparr> st)
        = fst (handle \<lparr>http_method = POST, path = lit ''/echo'', body = Some (JObject members')\<rparr> st')"
    by (simp add: handle_echo e split: sum.splits)
  show "handle \<lparr>http_method = POST, path = lit ''/echo'', body = Some (JObject members)\<rparr> st
        = handle \<lparr>http_method = POST, path = lit ''/echo'', body = Some (JObject members')\<rparr> st"
    by (simp add: handle_echo e)
next
  assume a: "map_of members (lit ''input'') = map_of members' (lit ''input'')"
  show "snd (handle \<lparr>http_method = POST, path = lit ''/echo'', body = Some (JObject members)\<rparr> st)
        = snd (handle \<lparr>http_method = POST, path = lit ''/echo'', body = Some (JObject members')\<rparr> st)"
    by (simp add: handle_echo ToolInput_validate_def a split: option.splits json.splits)
next
  assume a: "map_of members (lit ''input'') = Some (JString s)"
  from validate_object [OF a] have v: "ToolInput_validate (Some (JObject members)) = Inr \<lparr>input = s\<rparr>" .
  show "fst (handle \<lparr>http_method = POST, path = lit ''/echo'', body = Some (JObject members)\<rparr> st)
        = fst (handle \<lparr>http_method = POST, path = lit ''/echo'',
                      body = Some (JObject [(lit ''input'', JString s)])\<rparr> st')"
    by (simp add: accepted_handle [OF v] accepted_handle [OF validate_input_only])
  show "\<exists>r. fst (handle \<lparr>http_method = POST, path = lit ''/echo'',
                           body = Some (JObject members)\<rparr> st) = Some r
             \<and> status_code r \<noteq> 422"
    by (simp add: accepted_handle [OF v] JSONResponse_def)
qed

text \<open>A body with two unknown members beside \<open>input\<close>, and the body with \<open>input\<close> alone.\<close>

theorem echo_depends_on_input_only_witness:
  "fst (handle \<lparr>http_method = POST, path = lit ''/echo'',
          body = Some (JObject [(lit ''input'', JString (lit ''hi''))])\<rparr> (fresh example_clock))
   = fst (handle \<lparr>http_method = POST, path = lit ''/echo'',
          body = Some (JObject [(lit ''verbose'', JBool True), (lit ''input'', JString (lit ''hi'')),
                                (lit ''n'', JNumber 7)])\<rparr> (fresh example_clock))
   \<and> (\<exists>r. fst (handle \<lparr>http_method = POST, path = lit ''/echo'',
          body = Some (JObject [(lit ''verbose'', JBool True), (lit ''input'', JString (lit ''hi'')),
                                (lit ''n'', JNumber 7)])\<rparr> (fresh example_clock)) = Some r
        \<and> status_code r \<noteq> 422)"
proof -
  let ?a = "[(lit ''input'', JString (lit ''hi''))]"
  let ?b = "[(lit ''verbose'', JBool True), (lit ''input'', JString (lit ''hi'')),
             (lit ''n'', JNumber 7)]"
  have k: "map_of ?a (lit ''input'') = Some (JString (lit ''hi''))
           \<and> map_of ?b (lit ''input'') = Some (JString (lit ''hi''))"
    by (simp add: lit_def)
  from echo_depends_on_input_only
         [of ?a "JString (lit ''hi'')" ?b "fresh example_clock" "fresh example_clock"] k
  have 1: "fst (handle \<lparr>http_method = POST, path = lit ''/echo'', body = Some (JObject ?a)\<rparr>
                  (fresh example_clock))
      = fst (handle \<lparr>http_method = POST, path = lit ''/echo'', body = Some (JObject ?b)\<rparr>
                  (fresh example_clock))"
    by blast
  from echo_depends_on_input_only
         [of ?b "JString (lit ''hi'')" ?b "fresh example_clock" "fresh example_clock" "lit ''hi''"] k
  have 2: "\<exists>r. fst (handle \<lparr>http_method = POST, path = lit ''/echo'', body = Some (JObject ?b)\<rparr>
                  (fresh example_clock)) = Some r \<and> status_code r \<noteq> 422"
    by blast
  show ?thesis using 1 2 by blast
qed

section \<open>Health and readiness\<close>

text \<open>
  C3. In every state of the process and whatever the request carries, GET /health is
  answered with status 200 and the body \<open>{"status": "ok"}\<close>, and HEAD /health with the
  same status 200 and an empty body.
\<close>

theorem health_always_ok:
  "fst (handle \<lparr>http_method = GET, path = lit ''/health'', body = b\<rparr> st)
     = Some \<lparr>status_code = 200, content = Json [(lit ''status'', JString (lit ''ok''))]\<rparr>
   \<and> fst (handle \<lparr>http_method = HEAD, path = lit ''/health'', body = b'\<rparr> st')
     = Some \<lparr>status_code = 200, content = Empty\<rparr>"
  by (simp add: handle_def route_health_get route_health_head split_beta Let_def fst_health_check
        JSONResponse_status_ok)

text \<open>
  C4. In every state GET /ready is answered with status 200 and the body
  \<open>{"status": "ok"}\<close>; \<open>ready_check\<close> returns what \<open>health_check\<close> returns, and the two
  GET responses are equal.
\<close>

theorem ready_same_as_health:
  "fst (handle \<lparr>http_method = GET, path = lit ''/ready'', body = b\<rparr> st)
     = Some \<lparr>status_code = 200, content = Json [(lit ''status'', JString (lit ''ok''))]\<rparr>
   \<and> fst (ready_check st) = fst (health_check st')
   \<and> fst (handle \<lparr>http_method = GET, path = lit ''/ready'', body = b\<rparr> st)
     = fst (handle \<lparr>http_method = GET, path = lit ''/health'', body = b'\<rparr> st')"
  by (simp add: handle_def route_ready route_health_get split_beta Let_def fst_health_check
        fst_ready_check JSONResponse_status_ok)

section \<open>Tracing\<close>

text \<open>
  C5. Let the process start from a fresh state and serve any list of requests. With an
  empty \<open>OTEL_EXPORTER_OTLP_ENDPOINT\<close> the start makes exactly one call on the logger, at
  info level, and at every later moment no provider and no exporter exists, none is
  installed and the app is not instrumented. With a non-empty one there is at every
  later moment exactly one provider, carrying the resource with the service name and
  version and one batching processor over the one exporter for the configured endpoint,
  it is the installed one, and the app is instrumented. Serving requests never changes
  any of this.
\<close>

theorem tracing_decided_once_at_startup:
  assumes "startup decode env dotenv (fresh ck) = Inr (settings, st0)"
  shows "(OTEL_EXPORTER_OTLP_ENDPOINT settings = [] \<longrightarrow>
            log_calls st0 =
              [(Info, lit ''Tracing disabled because OTEL_EXPORTER_OTLP_ENDPOINT is empty'', [])]
            \<and> providers (serve reqs st0) = [] \<and> exporters (serve reqs st0) = []
            \<and> tracer_provider (serve reqs st0) = None \<and> \<not> instrumented (serve reqs st0))
       \<and> (OTEL_EXPORTER_OTLP_ENDPOINT settings \<noteq> [] \<longrightarrow>
            providers (serve reqs st0) =
              [\<lparr>resource = [(lit ''service.name'', JString (APP_NAME settings)),
                            (lit ''service.version'', JString (APP_VERSION settings))],
                span_processors = [BatchSpanProcessor 0]\<rparr>]
            \<and> exporters (serve reqs st0) = [OTLPSpanExporter (OTEL_EXPORTER_OTLP_ENDPOINT settings)]
            \<and> tracer_provider (serve reqs st0) = Some 0 \<and> instrumented (serve reqs st0))"
proof -
  from startup_fresh(2) [OF assms] obtain st1 where
    l: "setup_logging settings (fresh ck) = Inr st1" and
    e: "st0 = setup_metrics (setup_tracing settings st1)" by blast
  from setup_logging_fresh [OF l] have q: "log_calls st1 = []" "providers st1 = []"
    "exporters st1 = []" "tracer_provider st1 = None" "\<not> instrumented st1"
    by simp_all
  show ?thesis
  proof (intro conjI impI)
    assume d: "OTEL_EXPORTER_OTLP_ENDPOINT settings = []"
    note t = setup_tracing_disabled [OF d, of st1]
    show "log_calls st0 =
              [(Info, lit ''Tracing disabled because OTEL_EXPORTER_OTLP_ENDPOINT is empty'', [])]"
      using t q by (simp add: e setup_metrics_def)
    show "providers (serve reqs st0) = []" using t q by (simp add: serve_fields e setup_metrics_def)
    show "exporters (serve reqs st0) = []" using t q by (simp add: serve_fields e setup_metrics_def)
    show "tracer_provider (serve reqs st0) = None"
      using t q by (simp add: serve_fields e setup_metrics_def)
    show "\<not> instrumented (serve reqs st0)"
      using t q by (simp add: serve_fields e setup_metrics_def)
  next
    assume d: "OTEL_EXPORTER_OTLP_ENDPOINT settings \<noteq> []"
    note t = setup_tracing_enabled [OF d q(4)]
    show "providers (serve reqs st0) =
              [\<lparr>resource = [(lit ''service.name'', JString (APP_NAME settings)),
                            (lit ''service.version'', JString (APP_VERSION settings))],
                span_processors = [BatchSpanProcessor 0]\<rparr>]"
      using t q by (simp add: serve_fields e setup_metrics_def)
    show "exporters (serve reqs st0) = [OTLPSpanExporter (OTEL_EXPORTER_OTLP_ENDPOINT settings)]"
      using t q by (simp add: serve_fields e setup_metrics_def)
    show "tracer_provider (serve reqs st0) = Some 0"
      using t q by (simp add: serve_fields e setup_metrics_def)
    show "instrumented (serve reqs st0)"
      using t q by (simp add: serve_fields e setup_metrics_def)
  qed
qed

text \<open>
  Both runs: an empty environment (tracing off), and an environment that names a
  collector (tracing on), each followed by a request.
\<close>

theorem tracing_decided_once_at_startup_witness:
  "(\<exists>settings st0.
      startup (\<lambda>_. None) Map.empty Map.empty (fresh example_clock) = Inr (settings, st0)
      \<and> OTEL_EXPORTER_OTLP_ENDPOINT settings = []
      \<and> log_calls st0 =
           [(Info, lit ''Tracing disabled because OTEL_EXPORTER_OTLP_ENDPOINT is empty'', [])]
      \<and> providers (serve [\<lparr>http_method = GET, path = lit ''/health'', body = None\<rparr>] st0) = []
      \<and> exporters (serve [\<lparr>http_method = GET, path = lit ''/health'', body = None\<rparr>] st0) = []
      \<and> tracer_provider (serve [\<lparr>http_method = GET, path = lit ''/health'', body = None\<rparr>] st0)
          = None)
   \<and> (\<exists>settings st0.
      startup (\<lambda>_. None) [lit ''OTEL_EXPORTER_OTLP_ENDPOINT'' \<mapsto> lit ''http://otel:4317'']
        Map.empty (fresh example_clock) = Inr (settings, st0)
      \<and> providers (serve [\<lparr>http_method = GET, path = lit ''/health'', body = None\<rparr>] st0)
          = [\<lparr>resource = [(lit ''service.name'', JString (lit ''Echo Tool Server'')),
                           (lit ''service.version'', JString (lit ''0.1.12''))],
               span_processors = [BatchSpanProcessor 0]\<rparr>]
      \<and> exporters (serve [\<lparr>http_method = GET, path = lit ''/health'', body = None\<rparr>] st0)
          = [OTLPSpanExporter (lit ''http://otel:4317'')]
      \<and> tracer_provider (serve [\<lparr>http_method = GET, path = lit ''/health'', body = None\<rparr>] st0)
          = Some 0
      \<and> instrumented (serve [\<lparr>http_method = GET, path = lit ''/health'', body = None\<rparr>] st0))"
proof (intro conjI)
  let ?reqs = "[\<lparr>http_method = GET, path = lit ''/health'', body = None\<rparr>]"
  have n: "Map.empty (lit ''LOG_LEVEL'') = (None :: pystr option)"
          "Map.empty (lit ''SERVERS'') = (None :: pystr option)" by simp_all
  from startup_default_succeeds [OF n(1) n(1) n(2) n(2)] obtain settings st0 where
    st: "startup (\<lambda>_. None) Map.empty Map.empty (fresh example_clock) = Inr (settings, st0)"
    by blast
  from startup_fresh(1) [OF st] have o: "OTEL_EXPORTER_OTLP_ENDPOINT settings = []"
    by (auto simp add: Settings_init_def source_value_def str_field_def split: sum.splits)
  from tracing_decided_once_at_startup [OF st, of ?reqs] o st
  show "\<exists>settings st0.
      startup (\<lambda>_. None) Map.empty Map.empty (fresh example_clock) = Inr (settings, st0)
      \<and> OTEL_EXPORTER_OTLP_ENDPOINT settings = []
      \<and> log_calls st0 =
           [(Info, lit ''Tracing disabled because OTEL_EXPORTER_OTLP_ENDPOINT is empty'', [])]
      \<and> providers (serve ?reqs st0) = []
      \<and> exporters (serve ?reqs st0) = []
      \<and> tracer_provider (serve ?reqs st0) = None"
    by blast
next
  let ?reqs = "[\<lparr>http_method = GET, path = lit ''/health'', body = None\<rparr>]"
  let ?env = "[lit ''OTEL_EXPORTER_OTLP_ENDPOINT'' \<mapsto> lit ''http://otel:4317'']"
  have n: "?env (lit ''LOG_LEVEL'') = None" "?env (lit ''SERVERS'') = None"
          "Map.empty (lit ''LOG_LEVEL'') = (None :: pystr option)"
          "Map.empty (lit ''SERVERS'') = (None :: pystr option)"
    by (simp_all add: lit_def)
  from startup_default_succeeds [OF n(1) n(3) n(2) n(4)] obtain settings st0 where
    st: "startup (\<lambda>_. None) ?env Map.empty (fresh example_clock) = Inr (settings, st0)"
    by blast
  from startup_fresh(1) [OF st] have
    o: "OTEL_EXPORTER_OTLP_ENDPOINT settings = lit ''http://otel:4317''" and
    a: "APP_NAME settings = lit ''Echo Tool Server''" and
    v: "APP_VERSION settings = lit ''0.1.12''"
    by (auto simp add: Settings_init_def source_value_def str_field_def lit_def split: sum.splits)
  have ne: "OTEL_EXPORTER_OTLP_ENDPOINT settings \<noteq> []" by (simp add: o lit_def)
  from tracing_decided_once_at_startup [OF st, of ?reqs] ne
  have "providers (serve ?reqs st0)
          = [\<lparr>resource = [(lit ''service.name'', JString (lit ''Echo Tool Server'')),
                           (lit ''service.version'', JString (lit ''0.1.12''))],
               span_processors = [BatchSpanProcessor 0]\<rparr>]
      \<and> exporters (serve ?reqs st0) = [OTLPSpanExporter (lit ''http://otel:4317'')]
      \<and> tracer_provider (serve ?reqs st0) = Some 0
      \<and> instrumented (serve ?reqs st0)"
    by (simp add: o a v)
  then show "\<exists>settings st0.
      startup (\<lambda>_. None) ?env Map.empty (fresh example_clock) = Inr (settings, st0)
      \<and> providers (serve ?reqs st0)
          = [\<lparr>resource = [(lit ''service.name'', JString (lit ''Echo Tool Server'')),
                           (lit ''service.version'', JString (lit ''0.1.12''))],
               span_processors = [BatchSpanProcessor 0]\<rparr>]
      \<and> exporters (serve ?reqs st0) = [OTLPSpanExporter (lit ''http://otel:4317'')]
      \<and> tracer_provider (serve ?reqs st0) = Some 0
      \<and> instrumented (serve ?reqs st0)"
    using st by blast
qed

section \<open>The log sink\<close>

text \<open>
  C6, as the code has it. Let the process start from a fresh state and serve any list of
  requests; the level of the root logger is then the level that \<open>logging\<close> gives the
  upper-cased \<open>LOG_LEVEL\<close>. A call on the logger (whose keyword fields bind: none is named
  \<open>event\<close>; and none is \<open>stack_info\<close> or \<open>exc_info\<close>) returns. At or above that level it
  appends exactly one line to standard error and nothing to standard output; the line
  is a JSON object that holds under \<open>timestamp\<close> the time of the call in UTC in ISO 8601
  format, under \<open>level\<close> the lower-case name of the method, under \<open>event\<close> the event, and
  every other field of the caller. Below that level the call changes nothing but the
  record of the calls made: nothing is written and nothing is kept for later.
\<close>

theorem log_call_written_to_stderr_or_dropped:
  assumes "startup decode env dotenv (fresh ck) = Inr (settings, st0)"
    and "st = serve reqs st0"
    and "map_of kw (lit ''event'') = None"
    and "map_of kw (lit ''stack_info'') = None" and "map_of kw (lit ''exc_info'') = None"
    and "valid_datetime (clock st (length (log_calls st)))"
  shows "checkLevel (upper (LOG_LEVEL settings)) = Inr (root_level st)
    \<and> (\<exists>st'. logger_log m event kw st = Inr st'
         \<and> (root_level st \<le> levelno m \<longrightarrow>
              (\<exists>line t. stderr st' = stderr st @ [JObject line]
                 \<and> map_of line (lit ''timestamp'') = Some (JString t)
                 \<and> t = stamper_iso_utc (clock st (length (log_calls st)))
                 \<and> is_iso8601_utc t
                 \<and> map_of line (lit ''level'') = Some (JString (method_name m))
                 \<and> map_of line (lit ''event'') = Some (JString event)
                 \<and> (\<forall>k. k \<notin> {lit ''event'', lit ''level'', lit ''timestamp''}
                       \<longrightarrow> map_of line k = map_of kw k))
              \<and> stdout st' = stdout st)
         \<and> (\<not> root_level st \<le> levelno m \<longrightarrow>
              st' = st\<lparr>log_calls := log_calls st @ [(m, event, kw)]\<rparr>))"
proof -
  let ?t = "clock st (length (log_calls st))"
  let ?st' = "proxy_to_logger m event kw st"
  have h: "root_handlers st = [Stderr]"
    using startup_root(1) [OF assms(1)] by (simp add: assms(2) serve_fields)
  have c: "checkLevel (upper (LOG_LEVEL settings)) = Inr (root_level st)"
    using startup_root(2) [OF assms(1)] by (simp add: assms(2) serve_fields)
  have b: "logger_log m event kw st = Inr ?st'"
    by (simp add: logger_log_def assms(3))
  have w: "root_level st \<le> levelno m \<longrightarrow>
              (\<exists>line t. stderr ?st' = stderr st @ [JObject line]
                 \<and> map_of line (lit ''timestamp'') = Some (JString t)
                 \<and> t = stamper_iso_utc ?t
                 \<and> is_iso8601_utc t
                 \<and> map_of line (lit ''level'') = Some (JString (method_name m))
                 \<and> map_of line (lit ''event'') = Some (JString event)
                 \<and> (\<forall>k. k \<notin> {lit ''event'', lit ''level'', lit ''timestamp''}
                       \<longrightarrow> map_of line k = map_of kw k))
              \<and> stdout ?st' = stdout st"
  proof
    assume e: "root_level st \<le> levelno m"
    from process_event_members [OF assms(4,5), of ?t m event]
    obtain line where
      l: "process_event ?t m event kw = JObject line" and
      p: "map_of line (lit ''timestamp'') = Some (JString (stamper_iso_utc ?t))"
         "map_of line (lit ''level'') = Some (JString (method_name m))"
         "map_of line (lit ''event'') = Some (JString event)"
         "\<forall>k. k \<notin> {lit ''event'', lit ''level'', lit ''timestamp''}
               \<longrightarrow> map_of line k = map_of kw k"
      by blast
    have i: "is_iso8601_utc (stamper_iso_utc ?t)"
      by (rule stamper_is_iso8601_utc [OF assms(6)])
    have "stderr ?st' = stderr st @ [JObject line]"
      by (simp add: proxy_to_logger_written [OF e h] l)
    moreover have "stdout ?st' = stdout st"
      by (simp add: proxy_to_logger_written [OF e h])
    ultimately show "(\<exists>line t. stderr ?st' = stderr st @ [JObject line]
                 \<and> map_of line (lit ''timestamp'') = Some (JString t)
                 \<and> t = stamper_iso_utc ?t
                 \<and> is_iso8601_utc t
                 \<and> map_of line (lit ''level'') = Some (JString (method_name m))
                 \<and> map_of line (lit ''event'') = Some (JString event)
                 \<and> (\<forall>k. k \<notin> {lit ''event'', lit ''level'', lit ''timestamp''}
                       \<longrightarrow> map_of line k = map_of kw k))
              \<and> stdout ?st' = stdout st"
      using p i by blast
  qed
  have d: "\<not> root_level st \<le> levelno m \<longrightarrow>
              ?st' = st\<lparr>log_calls := log_calls st @ [(m, event, kw)]\<rparr>"
    using proxy_to_logger_dropped by blast
  show ?thesis using c b w d by blast
qed

text \<open>
  With \<open>LOG_LEVEL=info\<close> in the environment: an info call is written to standard error
  with its field and an ISO 8601 timestamp, a debug call is dropped.
\<close>

theorem log_call_written_to_stderr_or_dropped_witness:
  "\<exists>settings st.
     startup (\<lambda>_. None) [lit ''LOG_LEVEL'' \<mapsto> lit ''info''] Map.empty (fresh example_clock)
       = Inr (settings, st)
     \<and> root_level st = 20 \<and> levelno Info = 20 \<and> levelno Debug = 10
     \<and> (\<exists>st'. logger_log Info (lit ''echo.request'') [(lit ''input'', JString (lit ''hi''))] st
                 = Inr st'
          \<and> (\<exists>line. stderr st' = stderr st @ [JObject line]
                 \<and> map_of line (lit ''timestamp'') = Some (JString (lit ''2024-01-01T00:00:00Z''))
                 \<and> is_iso8601_utc (lit ''2024-01-01T00:00:00Z'')
                 \<and> map_of line (lit ''level'') = Some (JString (lit ''info''))
                 \<and> map_of line (lit ''input'') = Some (JString (lit ''hi'')))
          \<and> stdout st' = [])
     \<and> logger_log Debug (lit ''echo.request'') [] st
        = Inr (st\<lparr>log_calls := log_calls st @ [(Debug, lit ''echo.request'', [])]\<rparr>)"
proof -
  from startup_info obtain settings st where
    st: "startup (\<lambda>_. None) [lit ''LOG_LEVEL'' \<mapsto> lit ''info''] Map.empty (fresh example_clock)
           = Inr (settings, st)" and
    r: "root_level st = 20" and o: "stdout st = []" and ck: "clock st = example_clock" by blast
  have k: "map_of [(lit ''input'', JString (lit ''hi''))] (lit ''event'') = None"
          "map_of [(lit ''input'', JString (lit ''hi''))] (lit ''stack_info'') = None"
          "map_of [(lit ''input'', JString (lit ''hi''))] (lit ''exc_info'') = None"
          "map_of ([] :: dict) (lit ''event'') = None"
          "map_of ([] :: dict) (lit ''stack_info'') = None"
          "map_of ([] :: dict) (lit ''exc_info'') = None"
    by (simp_all add: lit_def)
  have v: "valid_datetime (clock st (length (log_calls st)))"
    by (simp add: ck valid_example_clock)
  have s: "st = serve [] st" by simp
  have n: "lit ''input'' \<notin> {lit ''event'', lit ''level'', lit ''timestamp''}"
    by (simp add: lit_def)
  from log_call_written_to_stderr_or_dropped
         [OF st s k(1) k(2) k(3) v, of Info "lit ''echo.request''"] r
  obtain st' line where
    a: "logger_log Info (lit ''echo.request'') [(lit ''input'', JString (lit ''hi''))] st = Inr st'"
       "stderr st' = stderr st @ [JObject line]"
       "map_of line (lit ''timestamp'')
          = Some (JString (stamper_iso_utc (clock st (length (log_calls st)))))"
       "is_iso8601_utc (stamper_iso_utc (clock st (length (log_calls st))))"
       "map_of line (lit ''level'') = Some (JString (method_name Info))"
       "\<forall>k. k \<notin> {lit ''event'', lit ''level'', lit ''timestamp''}
            \<longrightarrow> map_of line k = map_of [(lit ''input'', JString (lit ''hi''))] k"
       "stdout st' = stdout st"
    by auto
  have t: "stamper_iso_utc (clock st (length (log_calls st))) = lit ''2024-01-01T00:00:00Z''"
    by (simp add: ck stamper_example_clock)
  from a(6) n have i: "map_of line (lit ''input'') = Some (JString (lit ''hi''))"
    by simp
  have A: "\<exists>st'. logger_log Info (lit ''echo.request'') [(lit ''input'', JString (lit ''hi''))] st
                 = Inr st'
          \<and> (\<exists>line. stderr st' = stderr st @ [JObject line]
                 \<and> map_of line (lit ''timestamp'') = Some (JString (lit ''2024-01-01T00:00:00Z''))
                 \<and> is_iso8601_utc (lit ''2024-01-01T00:00:00Z'')
                 \<and> map_of line (lit ''level'') = Some (JString (lit ''info''))
                 \<and> map_of line (lit ''input'') = Some (JString (lit ''hi'')))
          \<and> stdout st' = []"
    using a(1,2,3,4,5,7) i o by (auto simp add: t)
  from log_call_written_to_stderr_or_dropped
         [OF st s k(4) k(5) k(6) v, of Debug "lit ''echo.request''"] r
  have B: "logger_log Debug (lit ''echo.request'') [] st
        = Inr (st\<lparr>log_calls := log_calls st @ [(Debug, lit ''echo.request'', [])]\<rparr>)"
    by auto
  show ?thesis using st r A B by auto
qed

text \<open>
  C6 as the specification states it (the line goes to standard output, with the level in
  upper case) fails. With \<open>LOG_LEVEL=info\<close> the call \<open>logger.info("health.check")\<close> of the
  health handler is at the configured level; it leaves standard output empty, and the
  line it appends to standard error has \<open>info\<close>, not \<open>INFO\<close>, as its level.
\<close>

theorem log_line_on_stdout_uppercase_counterexample:
  "\<exists>settings st.
     startup (\<lambda>_. None) [lit ''LOG_LEVEL'' \<mapsto> lit ''info''] Map.empty (fresh example_clock)
       = Inr (settings, st)
     \<and> root_level st \<le> levelno Info
     \<and> stdout (snd (health_check st)) = []
     \<and> stderr (snd (health_check st)) = stderr st @
         [JObject [(lit ''event'', JString (lit ''health.check'')),
                   (lit ''level'', JString (lit ''info'')),
                   (lit ''timestamp'', JString (lit ''2024-01-01T00:00:00Z''))]]
     \<and> lit ''info'' \<noteq> lit ''INFO''"
proof -
  from startup_info obtain settings st where
    st: "startup (\<lambda>_. None) [lit ''LOG_LEVEL'' \<mapsto> lit ''info''] Map.empty (fresh example_clock)
           = Inr (settings, st)" and
    r: "root_level st = 20" and o: "stdout st = []" and c: "clock st = example_clock" by blast
  have h: "root_handlers st = [Stderr]" by (rule startup_root(1) [OF st])
  have e: "root_level st \<le> levelno Info" by (simp add: r)
  have "stdout (snd (health_check st)) = []"
    by (simp add: health_check_def logger_info_def proxy_to_logger_written [OF e h] o)
  moreover have "stderr (snd (health_check st)) = stderr st @
         [JObject [(lit ''event'', JString (lit ''health.check'')),
                   (lit ''level'', JString (lit ''info'')),
                   (lit ''timestamp'', JString (lit ''2024-01-01T00:00:00Z''))]]"
    by (simp add: health_check_def logger_info_def proxy_to_logger_written [OF e h] c
          stamper_example_clock process_event_def JSONRenderer_def format_exc_info_def
          StackInfoRenderer_def TimeStamper_def add_log_level_def)
       (simp add: lit_def)
  moreover have "lit ''info'' \<noteq> lit ''INFO''" by (simp add: lit_def)
  ultimately show ?thesis using st e by blast
qed

text \<open>
  C9. When neither the environment nor the \<open>.env\<close> file gives \<open>LOG_LEVEL\<close>, the setting
  is \<open>WARN\<close> and the root logger is at level 30. Every call on the logger made by the
  start and by any list of requests is an info call (level 20, below 30), and after any
  list of requests nothing at all has been written to standard output or to standard
  error.
\<close>

theorem default_level_silences_handlers:
  assumes "env (lit ''LOG_LEVEL'') = None" and "dotenv (lit ''LOG_LEVEL'') = None"
    and "startup decode env dotenv (fresh ck) = Inr (settings, st0)"
  shows "LOG_LEVEL settings = lit ''WARN'' \<and> root_level st0 = 30 \<and> levelno Info < root_level st0
       \<and> (\<forall>c \<in> set (log_calls (serve reqs st0)). fst c = Info)
       \<and> stdout (serve reqs st0) = [] \<and> stderr (serve reqs st0) = []"
proof -
  from startup_fresh [OF assms(3)] obtain st1 where
    i: "Settings_init decode env dotenv = Inr settings" and
    l: "setup_logging settings (fresh ck) = Inr st1" and
    e: "st0 = setup_metrics (setup_tracing settings st1)" by blast
  from i have ll: "LOG_LEVEL settings = lit ''WARN''"
    by (auto simp add: Settings_init_def str_field_def source_value_def assms(1,2) split: sum.splits)
  from startup_root(2) [OF assms(3)] have r: "root_level st0 = 30"
    by (simp add: ll level_WARN)
  from setup_logging_fresh [OF l] have q: "stdout st1 = []" "stderr st1 = []" "log_calls st1 = []"
    "checkLevel (upper (LOG_LEVEL settings)) = Inr (root_level st1)"
    by simp_all
  have r1: "20 < root_level st1" using q(4) by (simp add: ll level_WARN)
  have o: "stdout st0 = [] \<and> stderr st0 = []"
    using setup_tracing_quiet [OF r1, of settings] q by (simp add: e setup_metrics_def)
  have "\<forall>c \<in> set (log_calls st0). fst c = Info"
    using setup_tracing_calls [of settings st1] q by (auto simp add: e setup_metrics_def)
  then have c: "\<forall>c \<in> set (log_calls (serve reqs st0)). fst c = Info"
    by (rule serve_calls_info)
  have "20 < root_level st0" by (simp add: r)
  from serve_quiet [OF this, of reqs] o
  have "stdout (serve reqs st0) = [] \<and> stderr (serve reqs st0) = []" by simp
  then show ?thesis using ll r c by simp
qed

text \<open>
  An empty environment, then an echo, a health and a ready request: four calls on the
  logger are made by the handlers and both streams stay empty.
\<close>

theorem default_level_silences_handlers_witness:
  "\<exists>settings st0.
     startup (\<lambda>_. None) Map.empty Map.empty (fresh example_clock) = Inr (settings, st0)
     \<and> LOG_LEVEL settings = lit ''WARN'' \<and> root_level st0 = 30
     \<and> length (log_calls (serve
          [\<lparr>http_method = POST, path = lit ''/echo'',
             body = Some (JObject [(lit ''input'', JString (lit ''hi''))])\<rparr>,
           \<lparr>http_method = GET, path = lit ''/health'', body = None\<rparr>,
           \<lparr>http_method = GET, path = lit ''/ready'', body = None\<rparr>] st0))
         = length (log_calls st0) + 4
     \<and> stdout (serve
          [\<lparr>http_method = POST, path = lit ''/echo'',
             body = Some (JObject [(lit ''input'', JString (lit ''hi''))])\<rparr>,
           \<lparr>http_method = GET, path = lit ''/health'', body = None\<rparr>,
           \<lparr>http_method = GET, path = lit ''/ready'', body = None\<rparr>] st0) = []
     \<and> stderr (serve
          [\<lparr>http_method = POST, path = lit ''/echo'',
             body = Some (JObject [(lit ''input'', JString (lit ''hi''))])\<rparr>,
           \<lparr>http_method = GET, path = lit ''/health'', body = None\<rparr>,
           \<lparr>http_method = GET, path = lit ''/ready'', body = None\<rparr>] st0) = []"
proof -
  let ?reqs = "[\<lparr>http_method = POST, path = lit ''/echo'',
             body = Some (JObject [(lit ''input'', JString (lit ''hi''))])\<rparr>,
           \<lparr>http_method = GET, path = lit ''/health'', body = None\<rparr>,
           \<lparr>http_method = GET, path = lit ''/ready'', body = None\<rparr>]"
  have n: "Map.empty (lit ''LOG_LEVEL'') = (None :: pystr option)"
          "Map.empty (lit ''SERVERS'') = (None :: pystr option)" by simp_all
  from startup_default_succeeds [OF n(1) n(1) n(2) n(2)] obtain settings st0 where
    st: "startup (\<lambda>_. None) Map.empty Map.empty (fresh example_clock) = Inr (settings, st0)"
    by blast
  note t = default_level_silences_handlers [OF n(1) n(1) st, of ?reqs]
  have c: "length (log_calls (serve ?reqs st0)) = length (log_calls st0) + 4"
    by (simp add: handle_ready_calls handle_health_get_calls handle_echo validate_input_only
          echo_calls)
  show ?thesis using st t c by blast
qed

section \<open>Configuration\<close>




end
